theory Spec2Isabelle
  imports Main
begin

section \<open>Strings: the functions of Go's \<open>strings\<close> package that the modules call\<close>

text \<open>
  A Go string is a sequence of bytes, here a \<open>char list\<close>. \<open>len\<close> is \<open>length\<close>,
  \<open>s[i:]\<close> is \<open>drop i s\<close> (for \<open>i \<le> len(s)\<close>), \<open>s[i]\<close> is \<open>s ! i\<close> (for \<open>i < len(s)\<close>).
\<close>

definition HasPrefix :: "string \<Rightarrow> string \<Rightarrow> bool" where
  "HasPrefix s pre = (length pre \<le> length s \<and> take (length pre) s = pre)"

definition HasSuffix :: "string \<Rightarrow> string \<Rightarrow> bool" where
  "HasSuffix s suf = (length suf \<le> length s \<and> drop (length s - length suf) s = suf)"

text \<open>
  \<open>strings.LastIndex(s, substr)\<close>: the index of the last instance of \<open>substr\<close> in \<open>s\<close>,
  or \<open>-1\<close>. The search runs from the last position at which \<open>substr\<close> still fits down
  to position 0.
\<close>

fun LastIndex_from :: "string \<Rightarrow> string \<Rightarrow> nat \<Rightarrow> int" where
  "LastIndex_from s substr 0 = (if HasPrefix s substr then 0 else - 1)"
| "LastIndex_from s substr (Suc i) =
     (if HasPrefix (drop (Suc i) s) substr then int (Suc i)
      else LastIndex_from s substr i)"

definition LastIndex :: "string \<Rightarrow> string \<Rightarrow> int" where
  "LastIndex s substr =
     (if length s < length substr then - 1
      else LastIndex_from s substr (length s - length substr))"



section \<open>Run-time panics\<close>

datatype panic = IndexOutOfRange | SliceBoundsOutOfRange | NilDereference

text \<open>\<open>s[i]\<close> and \<open>s[i:]\<close> with Go's bounds checks.\<close>

definition index_byte :: "string \<Rightarrow> int \<Rightarrow> panic + char" where
  "index_byte s i =
     (if 0 \<le> i \<and> i < int (length s) then Inr (s ! nat i) else Inl IndexOutOfRange)"

definition slice_from :: "string \<Rightarrow> int \<Rightarrow> panic + string" where
  "slice_from s i =
     (if 0 \<le> i \<and> i \<le> int (length s) then Inr (drop (nat i) s)
      else Inl SliceBoundsOutOfRange)"

section \<open>The request and its waiting strategies\<close>

text \<open>
  Modelled from the spec: the declarations of the \<open>wait\<close> package and of
  \<open>testcontainers.Request\<close> are not part of the sources at hand. A waiting strategy
  is one of: a log match (exact text, or a regular expression once \<open>AsRegexp\<close> has
  been applied), a listening-port check, or a conjunction of strategies all of
  which must succeed. The constructors \<open>ForLog\<close>, \<open>AsRegexp\<close>, \<open>ForListeningPort\<close>
  and \<open>ForAll\<close> build them.
\<close>

datatype LogStrategy = LogStrategy (Log: string) (IsRegexp: bool)

datatype Strategy =
    OfLog LogStrategy
  | HostPortStrategy string
  | MultiStrategy "Strategy list"

definition ForLog :: "string \<Rightarrow> LogStrategy" where
  "ForLog text = LogStrategy text False"

definition AsRegexp :: "LogStrategy \<Rightarrow> LogStrategy" where
  "AsRegexp ws = LogStrategy (Log ws) True"

definition ForListeningPort :: "string \<Rightarrow> Strategy" where
  "ForListeningPort port = HostPortStrategy port"

definition ForAll :: "Strategy list \<Rightarrow> Strategy" where
  "ForAll strategies = MultiStrategy strategies"

record ContainerFile =
  HostFilePath :: string
  ContainerFilePath :: string
  FileMode :: nat

text \<open>
  Modelled from the spec: the request descriptor. \<open>Env\<close> is an allocated map, as in
  the requests that the \<open>RunContainer\<close> functions below build. \<open>Logger\<close> is the
  request's logger: \<open>None\<close> is the nil logger, \<open>Some\<close> holds the argument triples of
  the \<open>Printf\<close> calls made on the logger so far.
\<close>

record Request =
  Image :: string
  ExposedPorts :: "string list"
  Env :: "string \<rightharpoonup> string"
  Files :: "ContainerFile list"
  WaitingFor :: Strategy
  Cmd :: "string list"
  Started :: bool
  Logger :: "(string \<times> string \<times> string) list option"

datatype error =
    SettingNotPermitted string
  | NilLoggerNotPermitted
  | Customize error

text \<open>
  A \<open>CustomizeRequestOption\<close> is a \<open>func(req *Request) error\<close>: it panics, or it
  returns its error (\<open>None\<close> for \<open>nil\<close>) together with the request as it has left it.
\<close>

type_synonym CustomizeRequestOption = "Request \<Rightarrow> panic + (error option \<times> Request)"

text \<open>
  Modelled from the spec: an option application that sets the image reference (the
  library's \<open>WithImage\<close>, which is not part of the sources at hand).
\<close>

definition WithImage :: "string \<Rightarrow> CustomizeRequestOption" where
  "WithImage img req = Inr (None, req\<lparr>Image := img\<rparr>)"

section \<open>Module influxdb\<close>

definition defaultImage :: string where
  "defaultImage = ''influxdb:1.8''"

definition influxdb_request :: Request where
  "influxdb_request =
     \<lparr>Image = defaultImage,
      ExposedPorts = [''8086/tcp'', ''8088/tcp''],
      Env = [''INFLUXDB_BIND_ADDRESS'' \<mapsto> '':8088'',
             ''INFLUXDB_HTTP_BIND_ADDRESS'' \<mapsto> '':8086'',
             ''INFLUXDB_REPORTING_DISABLED'' \<mapsto> ''true'',
             ''INFLUXDB_MONITOR_STORE_ENABLED'' \<mapsto> ''false'',
             ''INFLUXDB_HTTP_HTTPS_ENABLED'' \<mapsto> ''false'',
             ''INFLUXDB_HTTP_AUTH_ENABLED'' \<mapsto> ''false''],
      Files = [],
      WaitingFor = ForListeningPort ''8086/tcp'',
      Cmd = [],
      Started = True,
      Logger = None\<rparr>"

text \<open>\<open>for _, opt := range opts { opt.Customize(&req) }\<close>: the errors are dropped.\<close>

fun influxdb_customize :: "CustomizeRequestOption list \<Rightarrow> Request \<Rightarrow> panic + Request" where
  "influxdb_customize [] req = Inr req"
| "influxdb_customize (opt # opts) req =
     (case opt req of
        Inl p \<Rightarrow> Inl p
      | Inr (_, req') \<Rightarrow> influxdb_customize opts req')"

definition isInitDb :: "ContainerFile \<Rightarrow> bool" where
  "isInitDb f =
     (ContainerFilePath f = ''/'' \<and> HasSuffix (HostFilePath f) ''docker-entrypoint-initdb.d'')"

text \<open>
  The loop over \<open>req.Files\<close>: at the first init-script mount the waiting strategy is
  wrapped, \<open>hasInitDb\<close> is set and the loop is left. The result is \<open>hasInitDb\<close> and
  the request.
\<close>

fun initDbLoop :: "ContainerFile list \<Rightarrow> Request \<Rightarrow> bool \<times> Request" where
  "initDbLoop [] req = (False, req)"
| "initDbLoop (f # fs) req =
     (if isInitDb f then
        (True, req\<lparr>WaitingFor :=
           ForAll [WaitingFor req,
                   OfLog (ForLog ''influxdb init process in progress...''),
                   OfLog (ForLog ''Server shutdown completed''),
                   OfLog (ForLog ''Opened shard'')]\<rparr>)
      else initDbLoop fs req)"

text \<open>
  The branch on the image tag, taken when no init-script mount was found. The
  condition \<open>tag == "latest" || tag[0] == '2'\<close> reads \<open>tag[0]\<close> only when the first
  disjunct is false.
\<close>

definition tagStrategy :: "Request \<Rightarrow> panic + Request" where
  "tagStrategy req =
     (let lastIndex = LastIndex (Image req) '':'' in
      if lastIndex \<noteq> - 1 then
        (case slice_from (Image req) (lastIndex + 1) of
           Inl p \<Rightarrow> Inl p
         | Inr tag \<Rightarrow>
             (case (if tag = ''latest'' then Inr True
                    else map_sum id (\<lambda>c. c = CHR ''2'') (index_byte tag 0)) of
                Inl p \<Rightarrow> Inl p
              | Inr newer \<Rightarrow>
                  if newer then
                    Inr (req\<lparr>WaitingFor := OfLog (AsRegexp (ForLog
                      ''Listening log_id=[0-9a-zA-Z_~]+ service=tcp-listener transport=http''))\<rparr>)
                  else Inr req))
      else Inr (req\<lparr>WaitingFor := OfLog (ForLog ''Listening for signals'')\<rparr>))"

text \<open>
  The readiness-strategy selector: the part of \<open>RunContainer\<close> between the
  customizers and the launch.
\<close>

definition selectReadinessStrategy :: "Request \<Rightarrow> panic + Request" where
  "selectReadinessStrategy req0 =
     (case initDbLoop (Files req0) req0 of
        (hasInitDb, req) \<Rightarrow> if \<not> hasInitDb then tagStrategy req else Inr req)"

text \<open>
  \<open>RunContainer\<close> up to the launch: the result is the request handed to
  \<open>testcontainers.New\<close>, or the panic that ended the call.
\<close>

definition influxdb_RunContainer :: "CustomizeRequestOption list \<Rightarrow> panic + Request" where
  "influxdb_RunContainer opts =
     (case influxdb_customize opts influxdb_request of
        Inl p \<Rightarrow> Inl p
      | Inr req \<Rightarrow> selectReadinessStrategy req)"

section \<open>Module neo4j\<close>

type_synonym LabsPlugin = string

definition ApocCore :: LabsPlugin where "ApocCore = ''apoc-core''"
definition Bloom :: LabsPlugin where "Bloom = ''bloom''"
definition NeoSemantics :: LabsPlugin where "NeoSemantics = ''n10s''"
definition Streams :: LabsPlugin where "Streams = ''streams''"

definition WithAdminPassword :: "string \<Rightarrow> CustomizeRequestOption" where
  "WithAdminPassword adminPassword req =
     (let pwd = (if adminPassword \<noteq> [] then ''neo4j/'' @ adminPassword else ''none'')
      in Inr (None, req\<lparr>Env := (Env req)(''NEO4J_AUTH'' \<mapsto> pwd)\<rparr>))"

definition WithoutAuthentication :: CustomizeRequestOption where
  "WithoutAuthentication = WithAdminPassword []"




definition validate :: "Request \<Rightarrow> error option" where
  "validate req = (if Logger req = None then Some NilLoggerNotPermitted else None)"



section \<open>Module surrealdb\<close>

definition surrealdb_request :: Request where
  "surrealdb_request =
     \<lparr>Image = ''surrealdb/surrealdb:v1.1.1'',
      ExposedPorts = [''8000/tcp''],
      Env = [''SURREAL_USER'' \<mapsto> ''root'',
             ''SURREAL_PASS'' \<mapsto> ''root'',
             ''SURREAL_AUTH'' \<mapsto> ''false'',
             ''SURREAL_STRICT'' \<mapsto> ''false'',
             ''SURREAL_CAPS_ALLOW_ALL'' \<mapsto> ''false'',
             ''SURREAL_PATH'' \<mapsto> ''memory''],
      Files = [],
      WaitingFor = ForAll [OfLog (ForLog ''Started web server on '')],
      Cmd = [''start''],
      Started = True,
      Logger = None\<rparr>"

definition surrealdb_WithUsername :: "string \<Rightarrow> CustomizeRequestOption" where
  "surrealdb_WithUsername username req =
     Inr (None, req\<lparr>Env := (Env req)(''SURREAL_USER'' \<mapsto> username)\<rparr>)"

definition surrealdb_WithPassword :: "string \<Rightarrow> CustomizeRequestOption" where
  "surrealdb_WithPassword password req =
     Inr (None, req\<lparr>Env := (Env req)(''SURREAL_PASS'' \<mapsto> password)\<rparr>)"

definition WithAuthentication :: CustomizeRequestOption where
  "WithAuthentication req = Inr (None, req\<lparr>Env := (Env req)(''SURREAL_AUTH'' \<mapsto> ''true'')\<rparr>)"

definition WithStrictMode :: CustomizeRequestOption where
  "WithStrictMode req = Inr (None, req\<lparr>Env := (Env req)(''SURREAL_STRICT'' \<mapsto> ''true'')\<rparr>)"

definition WithAllowAllCaps :: CustomizeRequestOption where
  "WithAllowAllCaps req =
     Inr (None, req\<lparr>Env := (Env req)(''SURREAL_CAPS_ALLOW_ALL'' \<mapsto> ''false'')\<rparr>)"

text \<open>
  The customizer loop of surrealdb's \<open>RunContainer\<close>: the first error ends the
  call, wrapped as \<open>customize: ...\<close>.
\<close>

fun surrealdb_customize ::
  "CustomizeRequestOption list \<Rightarrow> Request \<Rightarrow> panic + (error + Request)" where
  "surrealdb_customize [] req = Inr (Inr req)"
| "surrealdb_customize (opt # opts) req =
     (case opt req of
        Inl p \<Rightarrow> Inl p
      | Inr (Some err, _) \<Rightarrow> Inr (Inl (Customize err))
      | Inr (None, req') \<Rightarrow> surrealdb_customize opts req')"

text \<open>
  \<open>RunContainer\<close> up to the launch: a panic, the error returned, or the request
  handed to \<open>testcontainers.New\<close>.
\<close>

definition surrealdb_RunContainer ::
  "CustomizeRequestOption list \<Rightarrow> panic + (error + Request)" where
  "surrealdb_RunContainer opts = surrealdb_customize opts surrealdb_request"

section \<open>Sample inputs\<close>

text \<open>The mount that \<open>WithInitDb "testdata"\<close> appends, and the one of \<open>WithConfigFile\<close>.\<close>

definition initDbFile :: ContainerFile where
  "initDbFile =
     \<lparr>HostFilePath = ''testdata/docker-entrypoint-initdb.d'',
      ContainerFilePath = ''/'',
      FileMode = 493\<rparr>"

definition configFile :: ContainerFile where
  "configFile =
     \<lparr>HostFilePath = ''testdata/influxdb.conf'',
      ContainerFilePath = ''/etc/influxdb/influxdb.conf'',
      FileMode = 493\<rparr>"



section \<open>String lemmas\<close>

lemma HasSuffix_iff: "HasSuffix s suf \<longleftrightarrow> (\<exists>p. s = p @ suf)"
proof
  assume "HasSuffix s suf"
  then have "drop (length s - length suf) s = suf"
    by (simp add: HasSuffix_def)
  then have "s = take (length s - length suf) s @ suf"
    using append_take_drop_id [of "length s - length suf" s] by simp
  then show "\<exists>p. s = p @ suf" ..
next
  assume "\<exists>p. s = p @ suf"
  then show "HasSuffix s suf"
    by (auto simp: HasSuffix_def)
qed

lemma HasPrefix_single: "HasPrefix s [c] \<longleftrightarrow> s \<noteq> [] \<and> hd s = c"
  by (cases s) (auto simp: HasPrefix_def)

lemma HasPrefix_drop_mem: "HasPrefix (drop i s) [c] \<Longrightarrow> c \<in> set (drop i s)"
  by (auto simp: HasPrefix_single simp del: drop_eq_Nil drop_eq_Nil2 dest: hd_in_set)

lemma LastIndex_from_none:
  "(\<forall>i\<le>n. \<not> HasPrefix (drop i s) substr) \<Longrightarrow> LastIndex_from s substr n = - 1"
  by (induction n) auto

lemma LastIndex_from_found:
  "k \<le> n \<Longrightarrow> HasPrefix (drop k s) substr \<Longrightarrow>
   (\<forall>i. k < i \<and> i \<le> n \<longrightarrow> \<not> HasPrefix (drop i s) substr) \<Longrightarrow>
   LastIndex_from s substr n = int k"
proof (induction n)
  case 0
  then show ?case by simp
next
  case (Suc n)
  show ?case
  proof (cases "k = Suc n")
    case True
    with Suc.prems show ?thesis by simp
  next
    case False
    with Suc.prems have "k \<le> n" by simp
    moreover from Suc.prems False have "\<not> HasPrefix (drop (Suc n) s) substr" by simp
    ultimately show ?thesis using Suc by simp
  qed
qed

text \<open>\<open>LastIndex\<close> of a one-byte separator: absent, and in front of the last segment.\<close>

lemma LastIndex_absent: "c \<notin> set s \<Longrightarrow> LastIndex s [c] = - 1"
proof -
  assume a: "c \<notin> set s"
  have "\<not> HasPrefix (drop i s) [c]" for i
    using a HasPrefix_drop_mem [of i s c] set_drop_subset [of i s] by blast
  then show ?thesis
    by (simp add: LastIndex_def LastIndex_from_none)
qed

lemma LastIndex_last:
  assumes "c \<notin> set tag"
  shows "LastIndex (pre @ c # tag) [c] = int (length pre)"
proof -
  have none: "\<not> HasPrefix (drop i (pre @ c # tag)) [c]" if "length pre < i" for i
  proof -
    from that obtain j where "i = length pre + Suc j"
      by (auto simp: less_iff_Suc_add)
    then have "drop i (pre @ c # tag) = drop j tag" by simp
    then show ?thesis
      using assms HasPrefix_drop_mem [of j tag c] set_drop_subset [of j tag] by auto
  qed
  have "HasPrefix (drop (length pre) (pre @ c # tag)) [c]"
    by (simp add: HasPrefix_single)
  then have "LastIndex_from (pre @ c # tag) [c] (length pre + length tag) = int (length pre)"
    using none by (intro LastIndex_from_found) auto
  then show ?thesis by (simp add: LastIndex_def)
qed

lemma index_byte_0:
  "index_byte tag 0 = (case tag of [] \<Rightarrow> Inl IndexOutOfRange | c # _ \<Rightarrow> Inr c)"
  by (cases tag) (simp_all add: index_byte_def)


section \<open>The readiness-strategy selector of influxdb\<close>

lemma isInitDb_iff:
  "isInitDb f \<longleftrightarrow>
     ContainerFilePath f = ''/'' \<and> (\<exists>p. HostFilePath f = p @ ''docker-entrypoint-initdb.d'')"
  by (simp add: isInitDb_def HasSuffix_iff)

lemma initDbLoop_none:
  "\<forall>f\<in>set fs. \<not> isInitDb f \<Longrightarrow> initDbLoop fs req = (False, req)"
  by (induction fs) auto

lemma initDbLoop_some:
  "\<exists>f\<in>set fs. isInitDb f \<Longrightarrow>
   initDbLoop fs req =
     (True, req\<lparr>WaitingFor :=
        ForAll [WaitingFor req,
                OfLog (ForLog ''influxdb init process in progress...''),
                OfLog (ForLog ''Server shutdown completed''),
                OfLog (ForLog ''Opened shard'')]\<rparr>)"
  by (induction fs) auto

lemma select_none:
  "\<forall>f\<in>set (Files req). \<not> isInitDb f \<Longrightarrow> selectReadinessStrategy req = tagStrategy req"
  by (simp add: selectReadinessStrategy_def initDbLoop_none)

lemma select_some:
  "\<exists>f\<in>set (Files req). isInitDb f \<Longrightarrow>
   selectReadinessStrategy req =
     Inr (req\<lparr>WaitingFor :=
        ForAll [WaitingFor req,
                OfLog (ForLog ''influxdb init process in progress...''),
                OfLog (ForLog ''Server shutdown completed''),
                OfLog (ForLog ''Opened shard'')]\<rparr>)"
  by (simp add: selectReadinessStrategy_def initDbLoop_some)

text \<open>With the tag cut off behind the last colon, only the test on the tag is left.\<close>

lemma tagStrategy_tag:
  assumes "Image req = name @ '':'' @ tag" and "CHR '':'' \<notin> set tag"
  shows "tagStrategy req =
     (case (if tag = ''latest'' then Inr True
            else map_sum id (\<lambda>c. c = CHR ''2'') (index_byte tag 0)) of
        Inl p \<Rightarrow> Inl p
      | Inr newer \<Rightarrow>
          if newer then
            Inr (req\<lparr>WaitingFor := OfLog (AsRegexp (ForLog
              ''Listening log_id=[0-9a-zA-Z_~]+ service=tcp-listener transport=http''))\<rparr>)
          else Inr req)"
proof -
  have "LastIndex (Image req) '':'' = int (length name)"
    using assms LastIndex_last [of "CHR '':''" tag name] by simp
  moreover have "slice_from (Image req) (int (length name) + 1) = Inr tag"
    using assms(1) by (simp add: slice_from_def nat_add_distrib)
  ultimately show ?thesis
    by (simp add: tagStrategy_def)
qed

lemma tagStrategy_no_colon:
  "CHR '':'' \<notin> set (Image req) \<Longrightarrow>
   tagStrategy req = Inr (req\<lparr>WaitingFor := OfLog (ForLog ''Listening for signals'')\<rparr>)"
  by (simp add: tagStrategy_def LastIndex_absent)

lemma newer_cond:
  "tag \<noteq> [] \<Longrightarrow>
   (if tag = ''latest'' then Inr True
    else map_sum id (\<lambda>c. c = CHR ''2'') (index_byte tag 0)) =
   (Inr (tag = ''latest'' \<or> hd tag = CHR ''2'') :: panic + bool)"
  by (cases tag) (auto simp: index_byte_0)

lemma Strategy_not_nested: "MultiStrategy (w # ws) \<noteq> w"
proof
  assume "MultiStrategy (w # ws) = w"
  then have "size (MultiStrategy (w # ws)) = size w" by simp
  then show False by simp
qed

lemma initDbLoop_frame:
  "initDbLoop fs req = (b, r) \<Longrightarrow> \<exists>w. r = req\<lparr>WaitingFor := w\<rparr>"
proof (induction fs)
  case Nil
  then have "r = req\<lparr>WaitingFor := WaitingFor req\<rparr>" by simp
  then show ?case ..
next
  case (Cons f fs)
  then show ?case by (cases "isInitDb f") auto
qed

lemma tagStrategy_frame:
  assumes "tagStrategy req = Inr r"
  shows "\<exists>w. r = req\<lparr>WaitingFor := w\<rparr>"
proof -
  have "req = req\<lparr>WaitingFor := WaitingFor req\<rparr>" by simp
  then have "\<exists>w. req = req\<lparr>WaitingFor := w\<rparr>" ..
  with assms show ?thesis
    by (auto simp: tagStrategy_def Let_def split: if_splits sum.splits)
qed

lemma select_frame_aux:
  assumes "selectReadinessStrategy req = Inr r"
  shows "\<exists>w. r = req\<lparr>WaitingFor := w\<rparr>"
proof (cases "initDbLoop (Files req) req")
  case (Pair b r1)
  then obtain w1 where r1: "r1 = req\<lparr>WaitingFor := w1\<rparr>"
    using initDbLoop_frame by blast
  show ?thesis
  proof (cases b)
    case True
    with Pair assms have "r = r1" by (simp add: selectReadinessStrategy_def)
    with r1 show ?thesis by blast
  next
    case False
    with Pair assms have "tagStrategy r1 = Inr r" by (simp add: selectReadinessStrategy_def)
    then obtain w where "r = r1\<lparr>WaitingFor := w\<rparr>"
      using tagStrategy_frame by blast
    with r1 have "r = req\<lparr>WaitingFor := w\<rparr>" by simp
    then show ?thesis ..
  qed
qed

text \<open>
  Claim C1. A request without an init-script mount whose image reference ends in a colon
  (an empty tag, as in \<open>influxdb:\<close>) is said to leave the selector without a crash and
  with the waiting strategy as configured. The code reads \<open>tag[0]\<close> of the empty tag:
  the selector ends in an index-out-of-range panic for every such request.
\<close>

theorem empty_tag_panics:
  assumes "\<forall>f\<in>set (Files req).
             \<not> (ContainerFilePath f = ''/'' \<and>
                (\<exists>p. HostFilePath f = p @ ''docker-entrypoint-initdb.d''))"
    and "Image req = name @ '':''"
  shows "selectReadinessStrategy req = Inl IndexOutOfRange"
proof -
  from assms(1) have "selectReadinessStrategy req = tagStrategy req"
    by (intro select_none) (simp add: isInitDb_iff)
  moreover have "tagStrategy req = Inl IndexOutOfRange"
    using tagStrategy_tag [of req name "[]"] assms(2) by (simp add: index_byte_0)
  ultimately show ?thesis by simp
qed

theorem empty_tag_panics_witness:
  "influxdb_RunContainer [WithImage ''influxdb:''] = Inl IndexOutOfRange"
  using empty_tag_panics [of "influxdb_request\<lparr>Image := ''influxdb:''\<rparr>" "''influxdb''"]
  by (simp add: influxdb_RunContainer_def WithImage_def influxdb_request_def)

text \<open>
  Claim C2. When the file mounts contain an entry with container path \<open>/\<close> and a host
  path ending in \<open>docker-entrypoint-initdb.d\<close>, the selector replaces the waiting
  strategy by the conjunction of exactly four strategies, in this order: the strategy
  configured before, the log match for the start of the init process, the log match for
  the completed shutdown, the log match for the opened shard.
\<close>

theorem initDb_conjunction:
  assumes "f \<in> set (Files req)"
    and "ContainerFilePath f = ''/''"
    and "HostFilePath f = p @ ''docker-entrypoint-initdb.d''"
  shows "selectReadinessStrategy req =
     Inr (req\<lparr>WaitingFor :=
        ForAll [WaitingFor req,
                OfLog (ForLog ''influxdb init process in progress...''),
                OfLog (ForLog ''Server shutdown completed''),
                OfLog (ForLog ''Opened shard'')]\<rparr>)"
proof -
  from assms have "\<exists>f\<in>set (Files req). isInitDb f"
    by (auto simp: isInitDb_iff)
  then show ?thesis by (rule select_some)
qed

theorem initDb_conjunction_witness:
  "selectReadinessStrategy (influxdb_request\<lparr>Files := [configFile, initDbFile]\<rparr>) =
     Inr (influxdb_request\<lparr>Files := [configFile, initDbFile],
        WaitingFor :=
          MultiStrategy [HostPortStrategy ''8086/tcp'',
                OfLog (LogStrategy ''influxdb init process in progress...'' False),
                OfLog (LogStrategy ''Server shutdown completed'' False),
                OfLog (LogStrategy ''Opened shard'' False)]\<rparr>)"
  using initDb_conjunction
    [of initDbFile "influxdb_request\<lparr>Files := [configFile, initDbFile]\<rparr>" "''testdata/''"]
  by (simp add: initDbFile_def influxdb_request_def ForAll_def ForLog_def ForListeningPort_def)

text \<open>
  Claim C3. Without an init-script mount, and with a non-empty tag behind the last colon
  of the image reference that is \<open>latest\<close> or begins with \<open>2\<close>, the selector sets the
  waiting strategy to the regular-expression log match for the structured
  \<open>Listening\<close> line.
\<close>

theorem newer_tag_regexp:
  assumes "\<forall>f\<in>set (Files req).
             \<not> (ContainerFilePath f = ''/'' \<and>
                (\<exists>p. HostFilePath f = p @ ''docker-entrypoint-initdb.d''))"
    and "Image req = name @ '':'' @ tag"
    and "CHR '':'' \<notin> set tag"
    and "tag \<noteq> []"
    and "tag = ''latest'' \<or> hd tag = CHR ''2''"
  shows "selectReadinessStrategy req =
     Inr (req\<lparr>WaitingFor := OfLog (AsRegexp (ForLog
       ''Listening log_id=[0-9a-zA-Z_~]+ service=tcp-listener transport=http''))\<rparr>)"
proof -
  from assms(1) have "selectReadinessStrategy req = tagStrategy req"
    by (intro select_none) (simp add: isInitDb_iff)
  then show ?thesis
    using tagStrategy_tag [OF assms(2,3)] newer_cond [OF assms(4)] assms(5) by simp
qed

theorem newer_tag_regexp_witness:
  "selectReadinessStrategy (influxdb_request\<lparr>Image := ''influxdb:2.6'', Files := [configFile]\<rparr>) =
     Inr (influxdb_request\<lparr>Image := ''influxdb:2.6'', Files := [configFile],
       WaitingFor := OfLog (LogStrategy
         ''Listening log_id=[0-9a-zA-Z_~]+ service=tcp-listener transport=http'' True)\<rparr>) \<and>
   selectReadinessStrategy (influxdb_request\<lparr>Image := ''influxdb:latest''\<rparr>) =
     Inr (influxdb_request\<lparr>Image := ''influxdb:latest'',
       WaitingFor := OfLog (LogStrategy
         ''Listening log_id=[0-9a-zA-Z_~]+ service=tcp-listener transport=http'' True)\<rparr>)"
  using newer_tag_regexp
      [of "influxdb_request\<lparr>Image := ''influxdb:2.6'', Files := [configFile]\<rparr>"
          "''influxdb''" "''2.6''"]
    newer_tag_regexp
      [of "influxdb_request\<lparr>Image := ''influxdb:latest''\<rparr>" "''influxdb''" "''latest''"]
  by (simp add: influxdb_request_def configFile_def AsRegexp_def ForLog_def)

text \<open>
  Claim C4. Without an init-script mount, and with no colon in the image reference, the
  selector sets the waiting strategy to the exact log match for
  \<open>Listening for signals\<close>.
\<close>

theorem no_colon_listening_for_signals:
  assumes "\<forall>f\<in>set (Files req).
             \<not> (ContainerFilePath f = ''/'' \<and>
                (\<exists>p. HostFilePath f = p @ ''docker-entrypoint-initdb.d''))"
    and "CHR '':'' \<notin> set (Image req)"
  shows "selectReadinessStrategy req =
     Inr (req\<lparr>WaitingFor := OfLog (ForLog ''Listening for signals'')\<rparr>)"
proof -
  from assms(1) have "selectReadinessStrategy req = tagStrategy req"
    by (intro select_none) (simp add: isInitDb_iff)
  then show ?thesis
    using tagStrategy_no_colon [OF assms(2)] by simp
qed

theorem no_colon_listening_for_signals_witness:
  "selectReadinessStrategy (influxdb_request\<lparr>Image := ''influxdb'', Files := [configFile]\<rparr>) =
     Inr (influxdb_request\<lparr>Image := ''influxdb'', Files := [configFile],
       WaitingFor := OfLog (LogStrategy ''Listening for signals'' False)\<rparr>)"
  using no_colon_listening_for_signals
    [of "influxdb_request\<lparr>Image := ''influxdb'', Files := [configFile]\<rparr>"]
  by (simp add: influxdb_request_def configFile_def ForLog_def)

text \<open>
  Claim C5. Without an init-script mount, and with a non-empty tag that is neither
  \<open>latest\<close> nor begins with \<open>2\<close> (such as \<open>1.8\<close>), the selector leaves the waiting
  strategy as it was. In particular \<open>RunContainer\<close> without options, on the default image
  \<open>influxdb:1.8\<close>, launches the default request, whose strategy is the listening-port
  check on \<open>8086/tcp\<close>.
\<close>

theorem older_tag_unchanged:
  "((\<forall>f\<in>set (Files req).
        \<not> (ContainerFilePath f = ''/'' \<and>
           (\<exists>p. HostFilePath f = p @ ''docker-entrypoint-initdb.d''))) \<and>
     Image req = name @ '':'' @ tag \<and> CHR '':'' \<notin> set tag \<and>
     tag \<noteq> [] \<and> tag \<noteq> ''latest'' \<and> hd tag \<noteq> CHR ''2''
     \<longrightarrow> selectReadinessStrategy req = Inr req) \<and>
   influxdb_RunContainer [] = Inr influxdb_request \<and>
   Image influxdb_request = ''influxdb:1.8'' \<and>
   WaitingFor influxdb_request = ForListeningPort ''8086/tcp''"
proof -
  have gen: "selectReadinessStrategy r = Inr r"
    if a: "\<forall>f\<in>set (Files r).
             \<not> (ContainerFilePath f = ''/'' \<and>
                (\<exists>p. HostFilePath f = p @ ''docker-entrypoint-initdb.d''))"
      and b: "Image r = n @ '':'' @ t" "CHR '':'' \<notin> set t"
      and c: "t \<noteq> []" and d: "t \<noteq> ''latest''" "hd t \<noteq> CHR ''2''"
    for r n t
  proof -
    from a have "selectReadinessStrategy r = tagStrategy r"
      by (intro select_none) (simp add: isInitDb_iff)
    then show ?thesis
      using tagStrategy_tag [OF b] newer_cond [OF c] d by simp
  qed
  have "selectReadinessStrategy influxdb_request = Inr influxdb_request"
    by (rule gen [of influxdb_request "''influxdb''" "''1.8''"])
      (simp_all add: influxdb_request_def defaultImage_def)
  then have "influxdb_RunContainer [] = Inr influxdb_request"
    by (simp add: influxdb_RunContainer_def)
  moreover have "Image influxdb_request = ''influxdb:1.8''"
    by (simp add: influxdb_request_def defaultImage_def)
  moreover have "WaitingFor influxdb_request = ForListeningPort ''8086/tcp''"
    by (simp add: influxdb_request_def)
  ultimately show ?thesis using gen by blast
qed

theorem older_tag_unchanged_witness:
  "selectReadinessStrategy
     (influxdb_request\<lparr>Image := ''registry:5000/influxdb:1.7.11'', Files := [configFile]\<rparr>) =
   Inr (influxdb_request\<lparr>Image := ''registry:5000/influxdb:1.7.11'', Files := [configFile]\<rparr>)"
  using older_tag_unchanged
    [of "influxdb_request\<lparr>Image := ''registry:5000/influxdb:1.7.11'', Files := [configFile]\<rparr>"
        "''registry:5000/influxdb''" "''1.7.11''"]
  by (simp add: influxdb_request_def configFile_def)

text \<open>
  Claim C6. The selector changes nothing of the request but its waiting strategy: the
  request it returns has the environment mapping, the file mounts, the image reference
  and every other field of the request it was given.
\<close>

theorem select_frame:
  assumes "selectReadinessStrategy req = Inr req'"
  shows "req' = req\<lparr>WaitingFor := WaitingFor req'\<rparr> \<and>
         Env req' = Env req \<and> Files req' = Files req \<and> Image req' = Image req \<and>
         ExposedPorts req' = ExposedPorts req \<and> Cmd req' = Cmd req \<and>
         Started req' = Started req \<and> Logger req' = Logger req"
proof -
  from assms obtain w where "req' = req\<lparr>WaitingFor := w\<rparr>"
    using select_frame_aux by blast
  then show ?thesis by simp
qed

theorem select_frame_witness:
  "selectReadinessStrategy (influxdb_request\<lparr>Image := ''influxdb:2.6''\<rparr>) =
     Inr (influxdb_request\<lparr>Image := ''influxdb:2.6'',
       WaitingFor := OfLog (LogStrategy
         ''Listening log_id=[0-9a-zA-Z_~]+ service=tcp-listener transport=http'' True)\<rparr>) \<and>
   Env (influxdb_request\<lparr>Image := ''influxdb:2.6'',
       WaitingFor := OfLog (LogStrategy
         ''Listening log_id=[0-9a-zA-Z_~]+ service=tcp-listener transport=http'' True)\<rparr>) =
     Env (influxdb_request\<lparr>Image := ''influxdb:2.6''\<rparr>)"
proof -
  have h: "selectReadinessStrategy (influxdb_request\<lparr>Image := ''influxdb:2.6''\<rparr>) =
     Inr (influxdb_request\<lparr>Image := ''influxdb:2.6'',
       WaitingFor := OfLog (LogStrategy
         ''Listening log_id=[0-9a-zA-Z_~]+ service=tcp-listener transport=http'' True)\<rparr>)"
    by (simp add: selectReadinessStrategy_def influxdb_request_def tagStrategy_def
        LastIndex_def HasPrefix_def slice_from_def index_byte_def AsRegexp_def ForLog_def)
  from select_frame [OF h] h show ?thesis by simp
qed

text \<open>
  Claim C7. On a request with an init-script mount the selector is not idempotent: a
  second run returns a conjunction of four strategies whose first element is the
  conjunction of four that the first run returned. The earlier conjunction is nested as
  it is, so the second result differs from the first.
\<close>

theorem select_twice_nests:
  assumes "f \<in> set (Files req)"
    and "ContainerFilePath f = ''/''"
    and "HostFilePath f = p @ ''docker-entrypoint-initdb.d''"
  shows "\<exists>r1 r2.
     selectReadinessStrategy req = Inr r1 \<and> selectReadinessStrategy r1 = Inr r2 \<and>
     WaitingFor r1 =
       ForAll [WaitingFor req,
               OfLog (ForLog ''influxdb init process in progress...''),
               OfLog (ForLog ''Server shutdown completed''),
               OfLog (ForLog ''Opened shard'')] \<and>
     WaitingFor r2 =
       ForAll [WaitingFor r1,
               OfLog (ForLog ''influxdb init process in progress...''),
               OfLog (ForLog ''Server shutdown completed''),
               OfLog (ForLog ''Opened shard'')] \<and>
     WaitingFor r2 \<noteq> WaitingFor r1 \<and> r2 \<noteq> r1"
proof -
  define wrap where "wrap = (\<lambda>w.
       ForAll [w,
               OfLog (ForLog ''influxdb init process in progress...''),
               OfLog (ForLog ''Server shutdown completed''),
               OfLog (ForLog ''Opened shard'')])"
  define r1 where "r1 = req\<lparr>WaitingFor := wrap (WaitingFor req)\<rparr>"
  define r2 where "r2 = r1\<lparr>WaitingFor := wrap (WaitingFor r1)\<rparr>"
  from assms have init: "\<exists>f\<in>set (Files req). isInitDb f"
    by (auto simp: isInitDb_iff)
  then have one: "selectReadinessStrategy req = Inr r1"
    unfolding r1_def wrap_def by (rule select_some)
  from init have "\<exists>f\<in>set (Files r1). isInitDb f" by (simp add: r1_def)
  then have two: "selectReadinessStrategy r1 = Inr r2"
    unfolding r2_def wrap_def by (rule select_some)
  have w1: "WaitingFor r1 = wrap (WaitingFor req)" by (simp add: r1_def)
  have w2: "WaitingFor r2 = wrap (WaitingFor r1)" by (simp add: r2_def)
  have ne: "WaitingFor r2 \<noteq> WaitingFor r1"
    unfolding w2 using Strategy_not_nested by (simp add: wrap_def ForAll_def)
  then have "r2 \<noteq> r1" by auto
  with one two w1 w2 ne show ?thesis
    unfolding wrap_def by blast
qed

theorem select_twice_nests_witness:
  "\<exists>r1 r2. selectReadinessStrategy (influxdb_request\<lparr>Files := [initDbFile]\<rparr>) = Inr r1 \<and>
     selectReadinessStrategy r1 = Inr r2 \<and>
     WaitingFor r2 =
       MultiStrategy [MultiStrategy [HostPortStrategy ''8086/tcp'',
               OfLog (LogStrategy ''influxdb init process in progress...'' False),
               OfLog (LogStrategy ''Server shutdown completed'' False),
               OfLog (LogStrategy ''Opened shard'' False)],
               OfLog (LogStrategy ''influxdb init process in progress...'' False),
               OfLog (LogStrategy ''Server shutdown completed'' False),
               OfLog (LogStrategy ''Opened shard'' False)]"
  using select_twice_nests
    [of initDbFile "influxdb_request\<lparr>Files := [initDbFile]\<rparr>" "''testdata/''"]
  by (auto simp add: initDbFile_def influxdb_request_def ForAll_def ForLog_def
      ForListeningPort_def)

section \<open>Settings and plugins of neo4j\<close>







section \<open>The capability option of surrealdb\<close>

text \<open>
  Claim C10. \<open>WithAllowAllCaps\<close> sets \<open>SURREAL_CAPS_ALLOW_ALL\<close> to \<open>false\<close>, the value
  the default request of \<open>RunContainer\<close> has already: the option never sets it to
  \<open>true\<close>, it leaves the default request as it is, and \<open>RunContainer\<close> with this option
  alone launches the same request as \<open>RunContainer\<close> without options.
\<close>

theorem WithAllowAllCaps_false:
  "WithAllowAllCaps req =
     Inr (None, req\<lparr>Env := (Env req)(''SURREAL_CAPS_ALLOW_ALL'' \<mapsto> ''false'')\<rparr>) \<and>
   map_sum id (\<lambda>(err, r). Env r ''SURREAL_CAPS_ALLOW_ALL'') (WithAllowAllCaps req) =
     Inr (Some ''false'') \<and>
   Env surrealdb_request ''SURREAL_CAPS_ALLOW_ALL'' = Some ''false'' \<and>
   WithAllowAllCaps surrealdb_request = Inr (None, surrealdb_request) \<and>
   surrealdb_RunContainer [WithAllowAllCaps] = surrealdb_RunContainer [] \<and>
   surrealdb_RunContainer [] = Inr (Inr surrealdb_request)"
proof -
  have d: "Env surrealdb_request ''SURREAL_CAPS_ALLOW_ALL'' = Some ''false''"
    by (simp add: surrealdb_request_def)
  then have "(Env surrealdb_request)(''SURREAL_CAPS_ALLOW_ALL'' \<mapsto> ''false'') =
      Env surrealdb_request"
    by (rule map_upd_triv)
  then have e: "WithAllowAllCaps surrealdb_request = Inr (None, surrealdb_request)"
    by (simp add: WithAllowAllCaps_def)
  then have "surrealdb_RunContainer [WithAllowAllCaps] = surrealdb_RunContainer []"
    by (simp add: surrealdb_RunContainer_def)
  moreover have "surrealdb_RunContainer [] = Inr (Inr surrealdb_request)"
    by (simp add: surrealdb_RunContainer_def)
  ultimately show ?thesis using d e
    by (simp add: WithAllowAllCaps_def)
qed

end
